theory Spec2Isabelle
  imports Main "HOL-Library.Word" "HOL-Library.Sublist"
begin

section \<open>JavaScript strings\<close>

text \<open>
  A JavaScript string is a sequence of 16-bit code units; \<open>length\<close>, \<open>includes\<close>,
  \<open>startsWith\<close> and a regular expression without the \<open>u\<close> flag all work on code units.
  The ASCII literals of \<open>App.tsx\<close> are written with \<open>lit\<close>.
\<close>

type_synonym code_unit = "16 word"
type_synonym jsstring = "code_unit list"

definition lit :: "string \<Rightarrow> jsstring" where
  "lit s = map of_char s"

text \<open>
  The class \<open>\s\<close> of a JavaScript regular expression: WhiteSpace (TAB, VT, FF, ZWNBSP and
  the Unicode space separators) and LineTerminator (LF, CR, LS, PS).
\<close>

definition isWhiteSpace :: "code_unit \<Rightarrow> bool" where
  "isWhiteSpace c \<longleftrightarrow>
     c = 0x0009 \<or> c = 0x000A \<or> c = 0x000B \<or> c = 0x000C \<or> c = 0x000D \<or> c = 0x0020 \<or>
     c = 0x00A0 \<or> c = 0x1680 \<or> (0x2000 \<le> c \<and> c \<le> 0x200A) \<or> c = 0x2028 \<or>
     c = 0x2029 \<or> c = 0x202F \<or> c = 0x205F \<or> c = 0x3000 \<or> c = 0xFEFF"

text \<open>
  \<open>s.replace(/\s+/g, '')\<close>: scanning from the left, a maximal run of white space is
  matched and replaced by the empty string, any other code unit is copied.
\<close>

function replaceWhiteSpaceRuns :: "jsstring \<Rightarrow> jsstring" where
  "replaceWhiteSpaceRuns [] = []"
| "replaceWhiteSpaceRuns (c # cs) =
     (if isWhiteSpace c then replaceWhiteSpaceRuns (dropWhile isWhiteSpace cs)
      else c # replaceWhiteSpaceRuns cs)"
  by pat_completeness auto
termination
  by (relation "measure length") (auto simp: length_dropWhile_le less_Suc_eq_le)

text \<open>
  The class \<open>[\s-()]\<close>: without the \<open>u\<close> flag a range whose end point is a class escape is
  the union of both ends and the hyphen, so the class is white space, \<open>-\<close>, \<open>(\<close> and \<open>)\<close>.
\<close>

definition isSeparator :: "code_unit \<Rightarrow> bool" where
  "isSeparator c \<longleftrightarrow> isWhiteSpace c \<or> c = 0x002D \<or> c = 0x0028 \<or> c = 0x0029"

text \<open>\<open>s.replace(/[\s-()]/g, '')\<close>: every single code unit of the class is removed.\<close>

fun replaceSeparators :: "jsstring \<Rightarrow> jsstring" where
  "replaceSeparators [] = []"
| "replaceSeparators (c # cs) =
     (if isSeparator c then replaceSeparators cs else c # replaceSeparators cs)"

subsection \<open>encodeURIComponent\<close>

text \<open>
  ECMAScript \<open>Encode(string, "")\<close>: the ASCII word characters and \<open>-.!~*'()\<close> are copied;
  any other code point is written as the percent-escaped octets of its UTF-8 encoding;
  an unpaired surrogate raises \<open>URIError\<close>.
\<close>

datatype js_error = URIError | RenderError

definition uriUnescaped :: "code_unit \<Rightarrow> bool" where
  "uriUnescaped c \<longleftrightarrow>
     (0x41 \<le> c \<and> c \<le> 0x5A) \<or> (0x61 \<le> c \<and> c \<le> 0x7A) \<or> (0x30 \<le> c \<and> c \<le> 0x39) \<or>
     c = 0x5F \<or> c = 0x2D \<or> c = 0x2E \<or> c = 0x21 \<or> c = 0x7E \<or> c = 0x2A \<or> c = 0x27 \<or>
     c = 0x28 \<or> c = 0x29"

definition isLeadingSurrogate :: "code_unit \<Rightarrow> bool" where
  "isLeadingSurrogate c \<longleftrightarrow> 0xD800 \<le> c \<and> c \<le> 0xDBFF"

definition isTrailingSurrogate :: "code_unit \<Rightarrow> bool" where
  "isTrailingSurrogate c \<longleftrightarrow> 0xDC00 \<le> c \<and> c \<le> 0xDFFF"

definition surrogatePairToCodePoint :: "code_unit \<Rightarrow> code_unit \<Rightarrow> nat" where
  "surrogatePairToCodePoint lead trail =
     (unat lead - 0xD800) * 0x400 + (unat trail - 0xDC00) + 0x10000"

definition utf8Octets :: "nat \<Rightarrow> nat list" where
  "utf8Octets cp =
     (if cp < 0x80 then [cp]
      else if cp < 0x800 then [0xC0 + cp div 0x40, 0x80 + cp mod 0x40]
      else if cp < 0x10000 then
        [0xE0 + cp div 0x1000, 0x80 + (cp div 0x40) mod 0x40, 0x80 + cp mod 0x40]
      else
        [0xF0 + cp div 0x40000, 0x80 + (cp div 0x1000) mod 0x40,
         0x80 + (cp div 0x40) mod 0x40, 0x80 + cp mod 0x40])"

definition hexDigit :: "nat \<Rightarrow> code_unit" where
  "hexDigit n = (if n < 10 then of_nat (0x30 + n) else of_nat (0x41 + (n - 10)))"

definition percentEscape :: "nat \<Rightarrow> jsstring" where
  "percentEscape octet = [0x25, hexDigit (octet div 16), hexDigit (octet mod 16)]"

fun encodeURIComponent :: "jsstring \<Rightarrow> js_error + jsstring" where
  "encodeURIComponent [] = Inr []"
| "encodeURIComponent (c # cs) =
     (if uriUnescaped c then
        (case encodeURIComponent cs of Inl e \<Rightarrow> Inl e | Inr r \<Rightarrow> Inr (c # r))
      else if isTrailingSurrogate c then Inl URIError
      else if isLeadingSurrogate c then
        (case cs of
           [] \<Rightarrow> Inl URIError
         | d # ds \<Rightarrow>
             if isTrailingSurrogate d then
               (case encodeURIComponent ds of
                  Inl e \<Rightarrow> Inl e
                | Inr r \<Rightarrow>
                    Inr (concat (map percentEscape (utf8Octets (surrogatePairToCodePoint c d))) @ r))
             else Inl URIError)
      else
        (case encodeURIComponent cs of
           Inl e \<Rightarrow> Inl e
         | Inr r \<Rightarrow> Inr (concat (map percentEscape (utf8Octets (unat c))) @ r)))"

section \<open>The form data and the two pure functions of \<open>App.tsx\<close>\<close>

datatype QRType = Url | Text | Email | Wifi | Phone

text \<open>
  Every field of the interface \<open>FormData\<close> is optional: \<open>None\<close> is \<open>undefined\<close>.
  The state variable \<open>qrType\<close> has type \<open>QRType | ''\<close>; the unset value \<open>''\<close> is \<open>None\<close>.
\<close>

record FormData =
  url :: "jsstring option"
  text_field :: "jsstring option"
  email :: "jsstring option"
  emailSubject :: "jsstring option"
  emailBody :: "jsstring option"
  ssid :: "jsstring option"
  password :: "jsstring option"
  hidden :: "bool option"
  phone :: "jsstring option"

definition emptyFormData :: FormData where
  "emptyFormData =
     \<lparr>url = None, text_field = None, email = None, emailSubject = None, emailBody = None,
      ssid = None, password = None, hidden = None, phone = None\<rparr>"

text \<open>\<open>Boolean(v)\<close> of an optional string, \<open>v || ''\<close>, and the condition \<open>v ? _ : _\<close> of an
  optional boolean.\<close>

definition truthy :: "jsstring option \<Rightarrow> bool" where
  "truthy v = (case v of None \<Rightarrow> False | Some s \<Rightarrow> s \<noteq> [])"

definition orEmpty :: "jsstring option \<Rightarrow> jsstring" where
  "orEmpty v = (if truthy v then the v else [])"

definition truthyBool :: "bool option \<Rightarrow> bool" where
  "truthyBool v = (case v of None \<Rightarrow> False | Some b \<Rightarrow> b)"

definition startsWith :: "jsstring \<Rightarrow> jsstring \<Rightarrow> bool" where
  "startsWith s p = prefix p s"

definition includesUnit :: "jsstring \<Rightarrow> code_unit \<Rightarrow> bool" where
  "includesUnit s c = (c \<in> set s)"

fun generateQRContent :: "QRType option \<Rightarrow> FormData \<Rightarrow> js_error + jsstring" where
  "generateQRContent (Some Wifi) data =
     Inr (lit ''WIFI:T:WPA;S:'' @ orEmpty (ssid data) @ lit '';P:'' @ orEmpty (password data) @
          lit '';H:'' @ (if truthyBool (hidden data) then lit ''true'' else lit ''false'') @
          lit '';;'')"
| "generateQRContent (Some Email) data =
     (let email' = orEmpty (email data) in
      case encodeURIComponent (orEmpty (emailSubject data)) of
        Inl e \<Rightarrow> Inl e
      | Inr subject \<Rightarrow>
          (case encodeURIComponent (orEmpty (emailBody data)) of
             Inl e \<Rightarrow> Inl e
           | Inr body \<Rightarrow>
               (let mailtoLink = lit ''mailto:'' @ email' in
                if subject \<noteq> [] \<or> body \<noteq> [] then
                  (let mailtoLink1 = mailtoLink @ lit ''?'';
                       mailtoLink2 =
                         (if subject \<noteq> [] then mailtoLink1 @ lit ''subject='' @ subject
                          else mailtoLink1);
                       mailtoLink3 =
                         (if body \<noteq> [] then
                            mailtoLink2 @ (if subject \<noteq> [] then lit ''&'' else []) @
                            lit ''body='' @ body
                          else mailtoLink2)
                   in Inr mailtoLink3)
                else Inr mailtoLink)))"
| "generateQRContent (Some Phone) data =
     (let phoneNumber = replaceWhiteSpaceRuns (orEmpty (phone data))
      in Inr (lit ''tel:'' @ phoneNumber))"
| "generateQRContent (Some Url) data =
     (let url0 = orEmpty (url data);
          url1 =
            (if url0 \<noteq> [] \<and> \<not> startsWith url0 (lit ''http://'') \<and>
                \<not> startsWith url0 (lit ''https://'')
             then lit ''https://'' @ url0 else url0)
      in Inr url1)"
| "generateQRContent (Some Text) data = Inr (orEmpty (text_field data))"
| "generateQRContent None data = Inr []"

fun validateInput :: "QRType option \<Rightarrow> FormData \<Rightarrow> bool" where
  "validateInput (Some Wifi) data = truthy (ssid data)"
| "validateInput (Some Email) data =
     (truthy (email data) \<and> includesUnit (the (email data)) 0x40)"
| "validateInput (Some Phone) data =
     (truthy (phone data) \<and> 10 \<le> length (replaceSeparators (the (phone data))))"
| "validateInput (Some Url) data = truthy (url data)"
| "validateInput (Some Text) data = truthy (text_field data)"
| "validateInput None data = False"

section \<open>The component state and its event handlers\<close>

record AppState =
  qrType :: "QRType option"
  formData :: FormData
  qrUrl :: jsstring
  error :: jsstring

text \<open>
  The renderer \<open>QRCode.toDataURL\<close> is a library outside the repository: it is a parameter
  that, given the content and the options, resolves to a data URL or rejects.
\<close>

datatype ErrorCorrectionLevel = L | M | Q | H

record QRCodeOptions =
  width :: nat
  margin :: nat
  colorDark :: jsstring
  colorLight :: jsstring
  errorCorrectionLevel :: ErrorCorrectionLevel

definition renderOptions :: QRCodeOptions where
  "renderOptions =
     \<lparr>width = 300, margin = 2, colorDark = lit ''#000000'', colorLight = lit ''#ffffff'',
      errorCorrectionLevel = H\<rparr>"

type_synonym renderer = "jsstring \<Rightarrow> QRCodeOptions \<Rightarrow> js_error + jsstring"

text \<open>
  The calls a submission makes, in order, so that a theorem can say which collaborator
  was reached: the validator, the encoder, the renderer (with the content it was given)
  and \<open>console.error\<close>.
\<close>

datatype effect =
  CallValidateInput
  | CallGenerateQRContent
  | CallToDataURL jsstring
  | ConsoleError js_error

definition handleSubmit :: "renderer \<Rightarrow> AppState \<Rightarrow> AppState \<times> effect list" where
  "handleSubmit toDataURL s =
     (case qrType s of
        None \<Rightarrow> (s, [])
      | Some t \<Rightarrow>
          if \<not> validateInput (Some t) (formData s) then
            (s\<lparr>error := lit ''Please fill in all required fields correctly''\<rparr>,
             [CallValidateInput])
          else
            (case generateQRContent (Some t) (formData s) of
               Inl err \<Rightarrow>
                 (s\<lparr>error := lit ''Failed to generate QR code''\<rparr>,
                  [CallValidateInput, CallGenerateQRContent, ConsoleError err])
             | Inr content \<Rightarrow>
                 (case toDataURL content renderOptions of
                    Inl err \<Rightarrow>
                      (s\<lparr>error := lit ''Failed to generate QR code''\<rparr>,
                       [CallValidateInput, CallGenerateQRContent, CallToDataURL content,
                        ConsoleError err])
                  | Inr dataUrl \<Rightarrow>
                      (s\<lparr>qrUrl := dataUrl, error := []\<rparr>,
                       [CallValidateInput, CallGenerateQRContent, CallToDataURL content]))))"

text \<open>The \<open>onChange\<close> handler of the type selector.\<close>

definition selectOnChange :: "QRType option \<Rightarrow> AppState \<Rightarrow> AppState" where
  "selectOnChange v s = s\<lparr>qrType := v, formData := emptyFormData, qrUrl := [], error := []\<rparr>"

text \<open>What the page shows: the image block under \<open>qrUrl && ...\<close>, the message under
  \<open>error && ...\<close>.\<close>

definition displayedOutput :: "AppState \<Rightarrow> jsstring option" where
  "displayedOutput s = (if qrUrl s \<noteq> [] then Some (qrUrl s) else None)"

definition displayedError :: "AppState \<Rightarrow> jsstring option" where
  "displayedError s = (if error s \<noteq> [] then Some (error s) else None)"

section \<open>Notions used to state the properties\<close>

text \<open>
  A string is well formed (\<open>String.prototype.isWellFormed\<close>) when it has no unpaired
  surrogate: these are the strings on which \<open>encodeURIComponent\<close> returns.
\<close>

fun isWellFormed :: "jsstring \<Rightarrow> bool" where
  "isWellFormed [] = True"
| "isWellFormed (c # cs) =
     (if isTrailingSurrogate c then False
      else if isLeadingSurrogate c then
        (case cs of [] \<Rightarrow> False | d # ds \<Rightarrow> isTrailingSurrogate d \<and> isWellFormed ds)
      else isWellFormed cs)"

text \<open>
  The query component of a \<open>mailto:\<close> link as the specification words it: nothing when
  subject and body are both empty, otherwise \<open>?\<close>, then \<open>subject=\<close> and the encoded
  subject when there is a subject, \<open>body=\<close> and the encoded body when there is a body,
  joined by \<open>&\<close> when both are there.
\<close>

definition mailtoQuery :: "jsstring \<Rightarrow> jsstring \<Rightarrow> jsstring \<Rightarrow> jsstring \<Rightarrow> jsstring" where
  "mailtoQuery subject body encSubject encBody =
     (if subject = [] \<and> body = [] then []
      else lit ''?'' @
           (if subject \<noteq> [] then lit ''subject='' @ encSubject else []) @
           (if subject \<noteq> [] \<and> body \<noteq> [] then lit ''&'' else []) @
           (if body \<noteq> [] then lit ''body='' @ encBody else []))"

text \<open>The number of positions of \<open>s\<close> at which \<open>p\<close> occurs as a substring.\<close>

fun occurrences :: "'a list \<Rightarrow> 'a list \<Rightarrow> nat" where
  "occurrences p [] = (if p = [] then 1 else 0)"
| "occurrences p (x # xs) = (if prefix p (x # xs) then 1 else 0) + occurrences p xs"

text \<open>Two renderers for concrete runs: one that always rejects, one that always resolves
  to the same data URL.\<close>

definition failingRenderer :: renderer where
  "failingRenderer content opts = Inl RenderError"

definition constantRenderer :: renderer where
  "constantRenderer content opts = Inr (lit ''data:image/png;base64,NEW'')"

text \<open>The state a freshly mounted component starts in (the four \<open>useState\<close> calls).\<close>

definition initialState :: AppState where
  "initialState = \<lparr>qrType = None, formData = emptyFormData, qrUrl = [], error = []\<rparr>"

text \<open>Concrete inputs: a state that already shows a rendered code for \<open>example.com\<close>, an
  e-mail form whose subject is an unpaired surrogate, the same form inside a state, and
  a form whose phone number is too short.\<close>

definition staleState :: AppState where
  "staleState =
     \<lparr>qrType = Some Url, formData = emptyFormData\<lparr>url := Some (lit ''example.com'')\<rparr>,
      qrUrl = lit ''data:image/png;base64,OLD'', error = []\<rparr>"

definition loneSurrogateEmail :: FormData where
  "loneSurrogateEmail =
     emptyFormData\<lparr>email := Some (lit ''a@b.com''), emailSubject := Some [0xD83D]\<rparr>"

definition loneSurrogateState :: AppState where
  "loneSurrogateState =
     \<lparr>qrType = Some Email, formData = loneSurrogateEmail,
      qrUrl = lit ''data:image/png;base64,OLD'', error = []\<rparr>"

definition shortPhoneState :: AppState where
  "shortPhoneState =
     \<lparr>qrType = Some Phone, formData = emptyFormData\<lparr>phone := Some (lit ''123-456-789'')\<rparr>,
      qrUrl = lit ''data:image/png;base64,OLD'', error = []\<rparr>"

section \<open>Helper lemmas\<close>

subsection \<open>The two regular expressions remove exactly the code units of their class\<close>

lemma replaceWhiteSpaceRuns_filter:
  "replaceWhiteSpaceRuns s = filter (\<lambda>c. \<not> isWhiteSpace c) s"
proof (induction s rule: replaceWhiteSpaceRuns.induct)
  case 1
  show ?case by simp
next
  case (2 c cs)
  have drop: "filter (\<lambda>c. \<not> isWhiteSpace c) (dropWhile isWhiteSpace cs)
                = filter (\<lambda>c. \<not> isWhiteSpace c) cs"
    by (induction cs) auto
  from 2 show ?case by (simp add: drop)
qed

lemma replaceSeparators_filter:
  "replaceSeparators s = filter (\<lambda>c. \<not> isSeparator c) s"
  by (induction s) auto

subsection \<open>\<open>encodeURIComponent\<close>: examples, where it returns, what it returns\<close>

lemma encodeURIComponent_examples:
  "encodeURIComponent (lit ''Hi there_(1)!'') = Inr (lit ''Hi%20there_(1)!'')"
  "encodeURIComponent (lit ''a&b=c?d:e/f'') = Inr (lit ''a%26b%3Dc%3Fd%3Ae%2Ff'')"
  "encodeURIComponent [0xE9] = Inr (lit ''%C3%A9'')"
  "encodeURIComponent [0x20AC] = Inr (lit ''%E2%82%AC'')"
  "encodeURIComponent [0xD83D, 0xDE00] = Inr (lit ''%F0%9F%98%80'')"
  "encodeURIComponent [0xD83D] = Inl URIError"
  "encodeURIComponent [0xDE00, 0xD83D] = Inl URIError"
  by (simp_all add: lit_def uriUnescaped_def isTrailingSurrogate_def isLeadingSurrogate_def
      utf8Octets_def percentEscape_def hexDigit_def surrogatePairToCodePoint_def)

lemma uriUnescaped_not_surrogate:
  "uriUnescaped c \<Longrightarrow> \<not> isTrailingSurrogate c \<and> \<not> isLeadingSurrogate c"
  unfolding uriUnescaped_def isTrailingSurrogate_def isLeadingSurrogate_def word_le_nat_alt
  by (elim disjE) simp_all

lemma uriUnescaped_not_colon: "uriUnescaped c \<Longrightarrow> c \<noteq> 0x3A"
  by (auto simp: uriUnescaped_def)

lemma escaped_nonempty: "concat (map percentEscape (utf8Octets cp)) \<noteq> []"
  by (simp add: utf8Octets_def percentEscape_def)

lemma encodeURIComponent_empty_iff:
  "encodeURIComponent s = Inr r \<Longrightarrow> r = [] \<longleftrightarrow> s = []"
proof (cases s)
  case Nil
  then show "encodeURIComponent s = Inr r \<Longrightarrow> r = [] \<longleftrightarrow> s = []" by auto
next
  case (Cons c cs)
  assume "encodeURIComponent s = Inr r"
  with Cons have "r \<noteq> []"
    using escaped_nonempty
    by (auto split: if_splits sum.splits list.splits simp del: concat_eq_Nil_conv)
  with Cons show "r = [] \<longleftrightarrow> s = []" by simp
qed

lemma encodeURIComponent_wellFormed_iff:
  "(\<exists>r. encodeURIComponent s = Inr r) \<longleftrightarrow> isWellFormed s"
proof (induction s rule: encodeURIComponent.induct)
  case 1
  show ?case by simp
next
  case (2 c cs)
  show ?case
  proof (cases "uriUnescaped c")
    case True
    with 2(1) uriUnescaped_not_surrogate[of c] show ?thesis
      by (cases "encodeURIComponent cs") auto
  next
    case unesc: False
    show ?thesis
    proof (cases "isTrailingSurrogate c")
      case True
      with unesc show ?thesis by simp
    next
      case trail: False
      show ?thesis
      proof (cases "isLeadingSurrogate c")
        case False
        with unesc trail 2(3) show ?thesis
          by (cases "encodeURIComponent cs") auto
      next
        case lead: True
        show ?thesis
        proof (cases cs)
          case Nil
          with unesc trail lead show ?thesis by simp
        next
          case (Cons d ds)
          show ?thesis
          proof (cases "isTrailingSurrogate d")
            case False
            with unesc trail lead Cons show ?thesis by simp
          next
            case True
            with unesc trail lead Cons 2(2) show ?thesis
              by (cases "encodeURIComponent ds") auto
          qed
        qed
      qed
    qed
  qed
qed

lemma encodeURIComponent_error: "encodeURIComponent s = Inl e \<Longrightarrow> e = URIError"
proof (induction s rule: encodeURIComponent.induct)
  case 1
  then show ?case by simp
next
  case (2 c cs)
  from 2(4) show ?case
  proof (simp split: if_splits sum.splits list.splits)
    assume "uriUnescaped c" "encodeURIComponent cs = Inl e"
    with 2(1) show ?thesis by simp
  next
    fix d ds
    assume "\<not> uriUnescaped c" "\<not> isTrailingSurrogate c" "isLeadingSurrogate c" "cs = d # ds"
       "isTrailingSurrogate d" "encodeURIComponent ds = Inl e"
    with 2(2) show ?thesis by simp
  next
    assume "\<not> uriUnescaped c" "\<not> isTrailingSurrogate c" "\<not> isLeadingSurrogate c"
       "encodeURIComponent cs = Inl e"
    with 2(3) show ?thesis by simp
  qed
qed

lemma encodeURIComponent_illFormed:
  "\<not> isWellFormed s \<Longrightarrow> encodeURIComponent s = Inl URIError"
proof -
  assume "\<not> isWellFormed s"
  then have "\<nexists>r. encodeURIComponent s = Inr r"
    by (simp add: encodeURIComponent_wellFormed_iff)
  then obtain e where "encodeURIComponent s = Inl e"
    by (cases "encodeURIComponent s") auto
  then show ?thesis using encodeURIComponent_error by blast
qed

text \<open>The result holds no colon: a colon is escaped as \<open>%3A\<close>.\<close>

lemma unat_hexDigit: "n < 16 \<Longrightarrow> unat (hexDigit n) = (if n < 10 then 48 + n else 55 + n)"
  by (simp add: hexDigit_def unat_word_ariths unat_of_nat)

lemma hexDigit_not_colon: "n < 16 \<Longrightarrow> hexDigit n \<noteq> 0x3A"
proof
  assume n: "n < 16" and eq: "hexDigit n = 0x3A"
  from eq have "unat (hexDigit n) = 58" by simp
  with n show False by (simp add: unat_hexDigit split: if_splits)
qed

lemma percentEscape_no_colon: "octet < 256 \<Longrightarrow> 0x3A \<notin> set (percentEscape octet)"
proof -
  assume "octet < 256"
  then have "octet div 16 < 16" and "octet mod 16 < 16" by simp_all
  then have "hexDigit (octet div 16) \<noteq> 0x3A" and "hexDigit (octet mod 16) \<noteq> 0x3A"
    by (simp_all only: hexDigit_not_colon not_False_eq_True)
  then show ?thesis
    unfolding percentEscape_def by simp
qed

lemma utf8Octets_bound: "cp < 0x110000 \<Longrightarrow> octet \<in> set (utf8Octets cp) \<Longrightarrow> octet < 256"
  by (auto simp: utf8Octets_def split: if_splits)

lemma surrogatePair_bound:
  "isLeadingSurrogate c \<Longrightarrow> isTrailingSurrogate d \<Longrightarrow> surrogatePairToCodePoint c d < 0x110000"
proof -
  assume "isLeadingSurrogate c" and "isTrailingSurrogate d"
  then have "unat c \<le> 0xDBFF" and "unat d \<le> 0xDFFF"
    by (simp_all add: isLeadingSurrogate_def isTrailingSurrogate_def word_le_nat_alt)
  then show ?thesis
    unfolding surrogatePairToCodePoint_def by linarith
qed

lemma unat_code_unit_bound: "unat (c :: code_unit) < 0x110000"
  using unsigned_less[of c, where ?'a = nat] by simp

lemma escaped_no_colon:
  "cp < 0x110000 \<Longrightarrow> 0x3A \<notin> set (concat (map percentEscape (utf8Octets cp)))"
  using utf8Octets_bound percentEscape_no_colon by fastforce


lemma encodeURIComponent_no_colon: "encodeURIComponent s = Inr r \<Longrightarrow> 0x3A \<notin> set r"
proof (induction s arbitrary: r rule: encodeURIComponent.induct)
  case 1
  then show ?case by simp
next
  case (2 c cs)
  from 2(4) show ?case
  proof (simp split: if_splits sum.splits list.splits)
    fix r'
    assume "uriUnescaped c" "encodeURIComponent cs = Inr r'" "c # r' = r"
    with 2(1)[of r'] uriUnescaped_not_colon[of c] show ?thesis by auto
  next
    fix d ds r'
    assume "\<not> uriUnescaped c" "\<not> isTrailingSurrogate c" "isLeadingSurrogate c" "cs = d # ds"
       "isTrailingSurrogate d" "encodeURIComponent ds = Inr r'"
       "concat (map percentEscape (utf8Octets (surrogatePairToCodePoint c d))) @ r' = r"
    with 2(2)[of d ds r'] escaped_no_colon[OF surrogatePair_bound[of c d]] show ?thesis by auto
  next
    fix r'
    assume "\<not> uriUnescaped c" "\<not> isTrailingSurrogate c" "\<not> isLeadingSurrogate c"
       "encodeURIComponent cs = Inr r'" "concat (map percentEscape (utf8Octets (unat c))) @ r' = r"
    with 2(3)[of r'] escaped_no_colon[OF unat_code_unit_bound[of c]] show ?thesis by auto
  qed
qed

subsection \<open>Counting occurrences across a code unit the pattern does not contain\<close>

lemma prefix_append_separator:
  assumes "c \<notin> set p"
  shows "prefix p (a @ c # r) \<longleftrightarrow> prefix p a"
proof
  assume "prefix p (a @ c # r)"
  then consider "prefix p a" | us where "p = a @ us" "prefix us (c # r)"
    by (auto simp: prefix_append)
  then show "prefix p a"
  proof cases
    case 1
    then show ?thesis .
  next
    case 2
    with assms have "us = []" by (auto simp: prefix_Cons)
    with 2 show ?thesis by simp
  qed
next
  assume "prefix p a"
  then show "prefix p (a @ c # r)" by (rule prefix_prefix)
qed

lemma occurrences_separator:
  assumes "c \<notin> set p" and "p \<noteq> []"
  shows "occurrences p (a @ c # r) = occurrences p a + occurrences p r"
proof (induction a)
  case Nil
  from assms have "\<not> prefix p (c # r)" by (auto simp: prefix_Cons)
  with assms show ?case by simp
next
  case (Cons x a)
  have "prefix p (x # a @ c # r) \<longleftrightarrow> prefix p (x # a)"
    using prefix_append_separator[OF assms(1), of "x # a" r] by simp
  with Cons show ?case by simp
qed

lemma occurrences_absent:
  assumes "c \<in> set p" and "c \<notin> set r"
  shows "occurrences p r = 0"
  using assms(2)
proof (induction r)
  case Nil
  from assms(1) show ?case by auto
next
  case (Cons x r)
  have "\<not> prefix p (x # r)"
  proof
    assume "prefix p (x # r)"
    then have "set p \<subseteq> set (x # r)" by (rule set_mono_prefix)
    with assms(1) Cons.prems show False by auto
  qed
  with Cons show ?case by simp
qed

subsection \<open>The encoder and the validator, branch by branch\<close>

lemma orEmpty_case: "orEmpty v = (case v of None \<Rightarrow> [] | Some s \<Rightarrow> s)"
  by (simp add: orEmpty_def truthy_def split: option.splits)

lemma truthy_orEmpty: "truthy v \<longleftrightarrow> orEmpty v \<noteq> []"
  by (simp add: orEmpty_def truthy_def split: option.splits)

lemma generateQRContent_email_Inr:
  assumes "encodeURIComponent (orEmpty (emailSubject d)) = Inr es"
    and "encodeURIComponent (orEmpty (emailBody d)) = Inr eb"
  shows "generateQRContent (Some Email) d =
     Inr (lit ''mailto:'' @ orEmpty (email d) @
          mailtoQuery (orEmpty (emailSubject d)) (orEmpty (emailBody d)) es eb)"
  using assms encodeURIComponent_empty_iff[OF assms(1)] encodeURIComponent_empty_iff[OF assms(2)]
  by (simp add: mailtoQuery_def Let_def)

lemma generateQRContent_email_Inl:
  assumes "\<not> (isWellFormed (orEmpty (emailSubject d)) \<and> isWellFormed (orEmpty (emailBody d)))"
  shows "generateQRContent (Some Email) d = Inl URIError"
proof (cases "isWellFormed (orEmpty (emailSubject d))")
  case False
  then show ?thesis by (simp add: encodeURIComponent_illFormed)
next
  case True
  with assms have "encodeURIComponent (orEmpty (emailBody d)) = Inl URIError"
    by (simp add: encodeURIComponent_illFormed)
  then show ?thesis by (simp split: sum.splits add: encodeURIComponent_error)
qed

lemma validateInput_emptyFormData: "\<not> validateInput t emptyFormData"
proof (cases t)
  case None
  then show ?thesis by simp
next
  case (Some q)
  then show ?thesis by (cases q) (simp_all add: emptyFormData_def truthy_def)
qed

subsection \<open>The literal of each type inside the content\<close>

lemma occurrences_wifi:
  assumes "0x3A \<notin> set t"
  shows "occurrences (lit ''WIFI:'')
           (lit ''WIFI:T:WPA;S:'' @ a @ lit '';P:'' @ b @ lit '';H:'' @ t @ lit '';;'') =
         1 + occurrences (lit ''WIFI:'') a + occurrences (lit ''WIFI:'') b"
proof -
  have "occurrences (lit ''WIFI:'') (t @ lit '';;'') = 0"
    using assms by (intro occurrences_absent[of "0x3A"]) (simp_all add: lit_def)
  then show ?thesis
    by (simp add: lit_def occurrences_separator)
qed

lemma occurrences_mailto:
  assumes "q = [] \<or> (\<exists>q'. q = lit ''?'' @ q' \<and> 0x3A \<notin> set q')"
  shows "occurrences (lit ''mailto:'') (lit ''mailto:'' @ a @ q) =
         1 + occurrences (lit ''mailto:'') a"
proof -
  have "occurrences (lit ''mailto:'') (a @ q) = occurrences (lit ''mailto:'') a"
    using assms
  proof
    assume "q = []"
    then show ?thesis by simp
  next
    assume "\<exists>q'. q = lit ''?'' @ q' \<and> 0x3A \<notin> set q'"
    then obtain q' where q: "q = 0x3F # q'" and "0x3A \<notin> set q'"
      by (auto simp: lit_def)
    then have "occurrences (lit ''mailto:'') q' = 0"
      by (intro occurrences_absent[of "0x3A"]) (simp_all add: lit_def)
    with q show ?thesis by (simp add: lit_def occurrences_separator)
  qed
  then show ?thesis by (simp add: lit_def)
qed

lemma occurrences_tel:
  "occurrences (lit ''tel:'') (lit ''tel:'' @ a) = 1 + occurrences (lit ''tel:'') a"
  by (simp add: lit_def)

lemma occurrences_https:
  "occurrences (lit ''https://'') (lit ''https://'' @ a) = 1 + occurrences (lit ''https://'') a"
  by (simp add: lit_def)

lemma occurrences_http_https:
  "occurrences (lit ''http://'') (lit ''https://'' @ a) = occurrences (lit ''http://'') a"
  by (simp add: lit_def)

lemma mailtoQuery_shape:
  assumes "encodeURIComponent s = Inr es" and "encodeURIComponent b = Inr eb"
  shows "mailtoQuery s b es eb = [] \<or>
         (\<exists>q'. mailtoQuery s b es eb = lit ''?'' @ q' \<and> 0x3A \<notin> set q')"
  using encodeURIComponent_no_colon[OF assms(1)] encodeURIComponent_no_colon[OF assms(2)]
  by (simp add: mailtoQuery_def lit_def)

lemma wifi_prefix_occurrences:
  "generateQRContent (Some Wifi) d = Inr r \<Longrightarrow>
     prefix (lit ''WIFI:'') r \<and>
     occurrences (lit ''WIFI:'') r =
       1 + occurrences (lit ''WIFI:'') (orEmpty (ssid d)) +
       occurrences (lit ''WIFI:'') (orEmpty (password d))"
proof -
  assume g: "generateQRContent (Some Wifi) d = Inr r"
  define t where "t = (if truthyBool (hidden d) then lit ''true'' else lit ''false'')"
  have t: "0x3A \<notin> set t" by (simp add: t_def lit_def)
  from g have r: "r = lit ''WIFI:T:WPA;S:'' @ orEmpty (ssid d) @ lit '';P:'' @
      orEmpty (password d) @ lit '';H:'' @ t @ lit '';;''"
    by (simp add: t_def)
  have "prefix (lit ''WIFI:'') r" unfolding r by (simp add: lit_def)
  moreover have "occurrences (lit ''WIFI:'') r =
       1 + occurrences (lit ''WIFI:'') (orEmpty (ssid d)) +
       occurrences (lit ''WIFI:'') (orEmpty (password d))"
    unfolding r by (rule occurrences_wifi[OF t])
  ultimately show ?thesis by simp
qed

lemma email_prefix_occurrences:
  "generateQRContent (Some Email) d = Inr r \<Longrightarrow>
     prefix (lit ''mailto:'') r \<and>
     occurrences (lit ''mailto:'') r = 1 + occurrences (lit ''mailto:'') (orEmpty (email d))"
proof -
  assume g: "generateQRContent (Some Email) d = Inr r"
  have wf: "isWellFormed (orEmpty (emailSubject d)) \<and> isWellFormed (orEmpty (emailBody d))"
    using g generateQRContent_email_Inl[of d] by auto
  then obtain es eb where
    es: "encodeURIComponent (orEmpty (emailSubject d)) = Inr es" and
    eb: "encodeURIComponent (orEmpty (emailBody d)) = Inr eb"
    using encodeURIComponent_wellFormed_iff by blast
  from g generateQRContent_email_Inr[OF es eb]
  have r: "r = lit ''mailto:'' @ orEmpty (email d) @
      mailtoQuery (orEmpty (emailSubject d)) (orEmpty (emailBody d)) es eb"
    by simp
  have "prefix (lit ''mailto:'') r" unfolding r by simp
  moreover have "occurrences (lit ''mailto:'') r =
      1 + occurrences (lit ''mailto:'') (orEmpty (email d))"
    unfolding r by (rule occurrences_mailto[OF mailtoQuery_shape[OF es eb]])
  ultimately show ?thesis by simp
qed

lemma phone_prefix_occurrences:
  "generateQRContent (Some Phone) d = Inr r \<Longrightarrow>
     prefix (lit ''tel:'') r \<and>
     occurrences (lit ''tel:'') r =
       1 + occurrences (lit ''tel:'') (filter (\<lambda>c. \<not> isWhiteSpace c) (orEmpty (phone d)))"
  by (auto simp: replaceWhiteSpaceRuns_filter occurrences_tel)

lemma url_prefix_occurrences:
  assumes "validateInput (Some Url) d" and "generateQRContent (Some Url) d = Inr r"
  shows "(prefix (lit ''http://'') r \<or> prefix (lit ''https://'') r) \<and>
     (prefix (lit ''http://'') (orEmpty (url d)) \<or> prefix (lit ''https://'') (orEmpty (url d)) \<longrightarrow>
        r = orEmpty (url d)) \<and>
     (\<not> prefix (lit ''http://'') (orEmpty (url d)) \<and>
      \<not> prefix (lit ''https://'') (orEmpty (url d)) \<longrightarrow>
        r = lit ''https://'' @ orEmpty (url d) \<and>
        occurrences (lit ''https://'') r = 1 + occurrences (lit ''https://'') (orEmpty (url d)) \<and>
        occurrences (lit ''http://'') r = occurrences (lit ''http://'') (orEmpty (url d))) \<and>
     generateQRContent (Some Url) (d\<lparr>url := Some r\<rparr>) = Inr r"
proof -
  from assms(1) have ne: "orEmpty (url d) \<noteq> []" by (simp add: truthy_orEmpty)
  show ?thesis
  proof (cases "prefix (lit ''http://'') (orEmpty (url d)) \<or> prefix (lit ''https://'') (orEmpty (url d))")
    case True
    with assms(2) ne have r: "r = orEmpty (url d)"
      by (auto simp: startsWith_def Let_def)
    with True ne show ?thesis
      by (auto simp: startsWith_def Let_def orEmpty_case)
  next
    case False
    with assms(2) ne have r: "r = lit ''https://'' @ orEmpty (url d)"
      by (auto simp: startsWith_def Let_def)
    have "generateQRContent (Some Url) (d\<lparr>url := Some r\<rparr>) = Inr r"
      unfolding r by (simp add: startsWith_def Let_def orEmpty_case lit_def)
    with False r show ?thesis
      by (simp add: occurrences_https occurrences_http_https)
  qed
qed

lemma validated_content:
  assumes "validateInput t d"
  shows "case generateQRContent t d of
           Inr c \<Rightarrow> c \<noteq> []
         | Inl e \<Rightarrow> e = URIError \<and> t = Some Email \<and>
             \<not> (isWellFormed (orEmpty (emailSubject d)) \<and> isWellFormed (orEmpty (emailBody d)))"
proof (cases t)
  case None
  with assms show ?thesis by simp
next
  case (Some q)
  show ?thesis
  proof (cases q)
    case Url
    with Some assms show ?thesis
      by (simp add: truthy_orEmpty Let_def)
  next
    case Text
    with Some assms show ?thesis by (simp add: truthy_orEmpty)
  next
    case Email
    show ?thesis
    proof (cases "isWellFormed (orEmpty (emailSubject d)) \<and> isWellFormed (orEmpty (emailBody d))")
      case True
      then obtain es eb where
        "encodeURIComponent (orEmpty (emailSubject d)) = Inr es"
        "encodeURIComponent (orEmpty (emailBody d)) = Inr eb"
        using encodeURIComponent_wellFormed_iff by blast
      from generateQRContent_email_Inr[OF this] Some Email show ?thesis
        by (simp add: lit_def)
    next
      case False
      from generateQRContent_email_Inl[OF this] False Some Email show ?thesis by simp
    qed
  next
    case Wifi
    with Some show ?thesis by (simp add: lit_def)
  next
    case Phone
    with Some show ?thesis by (simp add: lit_def)
  qed
qed

text \<open>The definitions to unfold when a concrete run is evaluated.\<close>

lemmas eval_defs =
  lit_def emptyFormData_def orEmpty_def truthy_def truthyBool_def startsWith_def
  includesUnit_def isWhiteSpace_def isSeparator_def uriUnescaped_def isTrailingSurrogate_def
  isLeadingSurrogate_def utf8Octets_def percentEscape_def hexDigit_def
  surrogatePairToCodePoint_def mailtoQuery_def replaceWhiteSpaceRuns_filter
  replaceSeparators_filter failingRenderer_def constantRenderer_def initialState_def
  staleState_def loneSurrogateEmail_def loneSurrogateState_def shortPhoneState_def
  displayedOutput_def displayedError_def

section \<open>The validator\<close>

text \<open>
  C1. \<open>validateInput\<close> accepts exactly under the rule of each type: Wifi when the ssid is
  not empty; Email when the address is not empty and contains \<open>@\<close>; Phone when the number
  without white space, hyphens and parentheses has at least 10 code units; Url when the
  url is not empty; Text when the text is not empty; an unset type is rejected. An absent
  field counts as empty, and the empty record is rejected for every type.
\<close>

theorem validateInput_rules:
  "(validateInput (Some Wifi) d \<longleftrightarrow> orEmpty (ssid d) \<noteq> []) \<and>
   (validateInput (Some Email) d \<longleftrightarrow>
      orEmpty (email d) \<noteq> [] \<and> 0x40 \<in> set (orEmpty (email d))) \<and>
   (validateInput (Some Phone) d \<longleftrightarrow>
      10 \<le> length (filter (\<lambda>c. \<not> isWhiteSpace c \<and> c \<noteq> 0x2D \<and> c \<noteq> 0x28 \<and> c \<noteq> 0x29)
                          (orEmpty (phone d)))) \<and>
   (validateInput (Some Url) d \<longleftrightarrow> orEmpty (url d) \<noteq> []) \<and>
   (validateInput (Some Text) d \<longleftrightarrow> orEmpty (text_field d) \<noteq> []) \<and>
   \<not> validateInput None d \<and>
   \<not> validateInput t emptyFormData"
proof -
  have ph: "validateInput (Some Phone) d \<longleftrightarrow>
      10 \<le> length (filter (\<lambda>c. \<not> isWhiteSpace c \<and> c \<noteq> 0x2D \<and> c \<noteq> 0x28 \<and> c \<noteq> 0x29)
                          (orEmpty (phone d)))"
    by (cases "phone d")
       (auto simp: orEmpty_case truthy_def replaceSeparators_filter isSeparator_def)
  have em: "validateInput (Some Email) d \<longleftrightarrow>
      orEmpty (email d) \<noteq> [] \<and> 0x40 \<in> set (orEmpty (email d))"
    by (cases "email d") (auto simp: orEmpty_case truthy_def includesUnit_def)
  show ?thesis
    using ph em validateInput_emptyFormData[of t]
    by (simp add: truthy_orEmpty)
qed

text \<open>The rule at the numbers \<open>(123) 456-7890\<close>, accepted, and \<open>123-456-789\<close>, rejected.\<close>

theorem validateInput_rules_witness:
  "validateInput (Some Phone) (emptyFormData\<lparr>phone := Some (lit ''(123) 456-7890'')\<rparr>) \<and>
   \<not> validateInput (Some Phone) (emptyFormData\<lparr>phone := Some (lit ''123-456-789'')\<rparr>)"
  using validateInput_rules[of "emptyFormData\<lparr>phone := Some (lit ''(123) 456-7890'')\<rparr>" None]
    validateInput_rules[of "emptyFormData\<lparr>phone := Some (lit ''123-456-789'')\<rparr>" None]
  by (simp add: eval_defs)

section \<open>The encoder\<close>

text \<open>
  C2. For Wifi the content is \<open>WIFI:T:WPA;S:\<close>, the ssid, \<open>;P:\<close>, the password, \<open>;H:\<close>,
  \<open>true\<close> or \<open>false\<close>, and \<open>;;\<close>; ssid and password are inserted as they are, an absent
  one as the empty string, an absent \<open>hidden\<close> as \<open>false\<close>.
\<close>

theorem generateQRContent_wifi:
  "generateQRContent (Some Wifi) d =
     Inr (lit ''WIFI:T:WPA;S:'' @ (case ssid d of None \<Rightarrow> [] | Some s \<Rightarrow> s) @ lit '';P:'' @
          (case password d of None \<Rightarrow> [] | Some p \<Rightarrow> p) @ lit '';H:'' @
          (case hidden d of None \<Rightarrow> lit ''false''
           | Some b \<Rightarrow> if b then lit ''true'' else lit ''false'') @
          lit '';;'')"
  by (simp add: orEmpty_case truthyBool_def split: option.splits)

text \<open>The example of the specification, and a password with \<open>;\<close> and a backslash, which
  are not escaped.\<close>

theorem generateQRContent_wifi_witness:
  "generateQRContent (Some Wifi)
     (emptyFormData\<lparr>ssid := Some (lit ''Home''), password := Some (lit ''secret''),
                     hidden := Some True\<rparr>) =
     Inr (lit ''WIFI:T:WPA;S:Home;P:secret;H:true;;'') \<and>
   generateQRContent (Some Wifi)
     (emptyFormData\<lparr>ssid := Some (lit ''a;b''), password := Some [0x5C, 0x22, 0x2C]\<rparr>) =
     Inr (lit ''WIFI:T:WPA;S:a;b;P:'' @ [0x5C, 0x22, 0x2C] @ lit '';H:false;;'')"
  using generateQRContent_wifi[of "emptyFormData\<lparr>ssid := Some (lit ''Home''),
      password := Some (lit ''secret''), hidden := Some True\<rparr>"]
    generateQRContent_wifi[of "emptyFormData\<lparr>ssid := Some (lit ''a;b''),
      password := Some [0x5C, 0x22, 0x2C]\<rparr>"]
  by (simp add: eval_defs)

text \<open>
  C3, as the code has it. When the subject and the body are well formed, the content for
  Email is \<open>mailto:\<close> and the address as it is, then the query component: nothing when
  subject and body are empty, otherwise \<open>?\<close>, \<open>subject=\<close> with the percent-encoded
  subject when there is one, \<open>body=\<close> with the percent-encoded body when there is one,
  and \<open>&\<close> between them when both are there. When the subject or the body holds an
  unpaired surrogate, \<open>encodeURIComponent\<close> raises \<open>URIError\<close> and no content is returned.
\<close>

theorem email_mailto_link:
  "(isWellFormed (orEmpty (emailSubject d)) \<and> isWellFormed (orEmpty (emailBody d)) \<longrightarrow>
      (\<exists>es eb. encodeURIComponent (orEmpty (emailSubject d)) = Inr es \<and>
               encodeURIComponent (orEmpty (emailBody d)) = Inr eb \<and>
               generateQRContent (Some Email) d =
                 Inr (lit ''mailto:'' @ orEmpty (email d) @
                      mailtoQuery (orEmpty (emailSubject d)) (orEmpty (emailBody d)) es eb))) \<and>
   (\<not> (isWellFormed (orEmpty (emailSubject d)) \<and> isWellFormed (orEmpty (emailBody d))) \<longrightarrow>
      generateQRContent (Some Email) d = Inl URIError)"
proof (intro conjI impI)
  assume wf: "isWellFormed (orEmpty (emailSubject d)) \<and> isWellFormed (orEmpty (emailBody d))"
  then obtain es eb where
    "encodeURIComponent (orEmpty (emailSubject d)) = Inr es"
    "encodeURIComponent (orEmpty (emailBody d)) = Inr eb"
    using encodeURIComponent_wellFormed_iff by blast
  then show "\<exists>es eb. encodeURIComponent (orEmpty (emailSubject d)) = Inr es \<and>
               encodeURIComponent (orEmpty (emailBody d)) = Inr eb \<and>
               generateQRContent (Some Email) d =
                 Inr (lit ''mailto:'' @ orEmpty (email d) @
                      mailtoQuery (orEmpty (emailSubject d)) (orEmpty (emailBody d)) es eb)"
    using generateQRContent_email_Inr by blast
next
  assume "\<not> (isWellFormed (orEmpty (emailSubject d)) \<and> isWellFormed (orEmpty (emailBody d)))"
  then show "generateQRContent (Some Email) d = Inl URIError"
    by (rule generateQRContent_email_Inl)
qed

text \<open>The examples of the specification, a subject and a body that need escaping, a
  body alone, and a subject that is an unpaired surrogate.\<close>

theorem email_mailto_link_witness:
  "isWellFormed (lit ''Hi'') \<and> isWellFormed (lit ''Hi there'') \<and> isWellFormed (lit ''a&b'') \<and>
   generateQRContent (Some Email)
     (emptyFormData\<lparr>email := Some (lit ''a@b.com''), emailSubject := Some (lit ''Hi''),
                     emailBody := Some []\<rparr>) = Inr (lit ''mailto:a@b.com?subject=Hi'') \<and>
   generateQRContent (Some Email) (emptyFormData\<lparr>email := Some (lit ''a@b.com'')\<rparr>) =
     Inr (lit ''mailto:a@b.com'') \<and>
   generateQRContent (Some Email)
     (emptyFormData\<lparr>email := Some (lit ''a@b.com''), emailSubject := Some (lit ''Hi there''),
                     emailBody := Some (lit ''a&b'')\<rparr>) =
     Inr (lit ''mailto:a@b.com?subject=Hi%20there&body=a%26b'') \<and>
   generateQRContent (Some Email)
     (emptyFormData\<lparr>email := Some (lit ''a@b.com''), emailBody := Some (lit ''a&b'')\<rparr>) =
     Inr (lit ''mailto:a@b.com?body=a%26b'') \<and>
   \<not> isWellFormed [0xD83D] \<and>
   generateQRContent (Some Email) loneSurrogateEmail = Inl URIError"
  using email_mailto_link[of "emptyFormData\<lparr>email := Some (lit ''a@b.com''),
      emailSubject := Some (lit ''Hi''), emailBody := Some []\<rparr>"]
    email_mailto_link[of "emptyFormData\<lparr>email := Some (lit ''a@b.com'')\<rparr>"]
    email_mailto_link[of "emptyFormData\<lparr>email := Some (lit ''a@b.com''),
      emailSubject := Some (lit ''Hi there''), emailBody := Some (lit ''a&b'')\<rparr>"]
    email_mailto_link[of "emptyFormData\<lparr>email := Some (lit ''a@b.com''),
      emailBody := Some (lit ''a&b'')\<rparr>"]
    email_mailto_link[of loneSurrogateEmail]
  by (simp add: eval_defs)

text \<open>
  C3 as the specification states it, for every record, fails: when the body is the
  single code unit \<open>0xDC00\<close>, a trailing surrogate alone, the encoder raises and returns
  no string.
\<close>

theorem email_lone_surrogate_raises:
  "generateQRContent (Some Email)
     (emptyFormData\<lparr>email := Some (lit ''a@b.com''), emailBody := Some [0xDC00]\<rparr>) =
     Inl URIError"
  by (simp add: eval_defs)

text \<open>
  C4. For Url the content is the url itself when it starts with \<open>http://\<close> or
  \<open>https://\<close>, the url after \<open>https://\<close> otherwise, and the empty string when the url is
  empty or absent.
\<close>

theorem generateQRContent_url:
  "generateQRContent (Some Url) d =
     Inr (let u = (case url d of None \<Rightarrow> [] | Some s \<Rightarrow> s) in
          if u = [] then []
          else if prefix (lit ''http://'') u \<or> prefix (lit ''https://'') u then u
          else lit ''https://'' @ u)"
  by (simp add: orEmpty_case startsWith_def Let_def split: option.splits)

theorem generateQRContent_url_witness:
  "generateQRContent (Some Url) (emptyFormData\<lparr>url := Some (lit ''example.com'')\<rparr>) =
     Inr (lit ''https://example.com'') \<and>
   generateQRContent (Some Url) (emptyFormData\<lparr>url := Some (lit ''http://example.com'')\<rparr>) =
     Inr (lit ''http://example.com'') \<and>
   generateQRContent (Some Url) emptyFormData = Inr []"
  using generateQRContent_url[of "emptyFormData\<lparr>url := Some (lit ''example.com'')\<rparr>"]
    generateQRContent_url[of "emptyFormData\<lparr>url := Some (lit ''http://example.com'')\<rparr>"]
    generateQRContent_url[of emptyFormData]
  by (simp add: eval_defs)

text \<open>
  C5. For Phone the content is \<open>tel:\<close> and the number without its white space; every
  other code unit stays where it is, and hyphens and parentheses are not white space.
\<close>

theorem generateQRContent_phone:
  "generateQRContent (Some Phone) d =
     Inr (lit ''tel:'' @
          filter (\<lambda>c. \<not> isWhiteSpace c) (case phone d of None \<Rightarrow> [] | Some s \<Rightarrow> s)) \<and>
   \<not> isWhiteSpace 0x2D \<and> \<not> isWhiteSpace 0x28 \<and> \<not> isWhiteSpace 0x29"
  by (simp add: orEmpty_case replaceWhiteSpaceRuns_filter isWhiteSpace_def split: option.splits)

theorem generateQRContent_phone_witness:
  "generateQRContent (Some Phone) (emptyFormData\<lparr>phone := Some (lit ''123 456 7890'')\<rparr>) =
     Inr (lit ''tel:1234567890'') \<and>
   generateQRContent (Some Phone) (emptyFormData\<lparr>phone := Some (lit ''(123) 456-7890'')\<rparr>) =
     Inr (lit ''tel:(123)456-7890'')"
  using generateQRContent_phone[of "emptyFormData\<lparr>phone := Some (lit ''123 456 7890'')\<rparr>"]
    generateQRContent_phone[of "emptyFormData\<lparr>phone := Some (lit ''(123) 456-7890'')\<rparr>"]
  by (simp add: eval_defs)

section \<open>The validator and the encoder together\<close>

text \<open>
  C6, as the code has it. For an accepted record whose content is returned, the content
  starts with the literal of its type (\<open>WIFI:\<close>, \<open>mailto:\<close>, \<open>tel:\<close>, and \<open>http://\<close> or
  \<open>https://\<close>), and the encoder writes that literal once: the content holds the literal
  once more than the text the user gave (ssid and password, address, phone number
  without white space), because that text is copied without escaping. A url that is
  already prefixed is returned as it is, a url that is not has \<open>https://\<close> written once
  in front, and encoding the content again gives the same content.
\<close>

theorem prefix_occurrences:
  "(validateInput (Some Wifi) d \<and> generateQRContent (Some Wifi) d = Inr r \<longrightarrow>
     prefix (lit ''WIFI:'') r \<and>
     occurrences (lit ''WIFI:'') r =
       1 + occurrences (lit ''WIFI:'') (orEmpty (ssid d)) +
       occurrences (lit ''WIFI:'') (orEmpty (password d))) \<and>
   (validateInput (Some Email) d \<and> generateQRContent (Some Email) d = Inr r \<longrightarrow>
     prefix (lit ''mailto:'') r \<and>
     occurrences (lit ''mailto:'') r = 1 + occurrences (lit ''mailto:'') (orEmpty (email d))) \<and>
   (validateInput (Some Phone) d \<and> generateQRContent (Some Phone) d = Inr r \<longrightarrow>
     prefix (lit ''tel:'') r \<and>
     occurrences (lit ''tel:'') r =
       1 + occurrences (lit ''tel:'') (filter (\<lambda>c. \<not> isWhiteSpace c) (orEmpty (phone d)))) \<and>
   (validateInput (Some Url) d \<and> generateQRContent (Some Url) d = Inr r \<longrightarrow>
     (prefix (lit ''http://'') r \<or> prefix (lit ''https://'') r) \<and>
     (prefix (lit ''http://'') (orEmpty (url d)) \<or> prefix (lit ''https://'') (orEmpty (url d)) \<longrightarrow>
        r = orEmpty (url d)) \<and>
     (\<not> prefix (lit ''http://'') (orEmpty (url d)) \<and>
      \<not> prefix (lit ''https://'') (orEmpty (url d)) \<longrightarrow>
        r = lit ''https://'' @ orEmpty (url d) \<and>
        occurrences (lit ''https://'') r = 1 + occurrences (lit ''https://'') (orEmpty (url d)) \<and>
        occurrences (lit ''http://'') r = occurrences (lit ''http://'') (orEmpty (url d))) \<and>
     generateQRContent (Some Url) (d\<lparr>url := Some r\<rparr>) = Inr r)"
  using wifi_prefix_occurrences[of d r] email_prefix_occurrences[of d r] phone_prefix_occurrences[of d r] url_prefix_occurrences[of d r]
  by blast

theorem prefix_occurrences_witness:
  "validateInput (Some Wifi) (emptyFormData\<lparr>ssid := Some (lit ''Home'')\<rparr>) \<and>
   generateQRContent (Some Wifi) (emptyFormData\<lparr>ssid := Some (lit ''Home'')\<rparr>) =
     Inr (lit ''WIFI:T:WPA;S:Home;P:;H:false;;'') \<and>
   occurrences (lit ''WIFI:'') (lit ''WIFI:T:WPA;S:Home;P:;H:false;;'') = 1 \<and>
   validateInput (Some Email) (emptyFormData\<lparr>email := Some (lit ''a@b.com'')\<rparr>) \<and>
   generateQRContent (Some Email) (emptyFormData\<lparr>email := Some (lit ''a@b.com'')\<rparr>) =
     Inr (lit ''mailto:a@b.com'') \<and>
   occurrences (lit ''mailto:'') (lit ''mailto:a@b.com'') = 1 \<and>
   validateInput (Some Phone) (emptyFormData\<lparr>phone := Some (lit ''123 456 7890'')\<rparr>) \<and>
   generateQRContent (Some Phone) (emptyFormData\<lparr>phone := Some (lit ''123 456 7890'')\<rparr>) =
     Inr (lit ''tel:1234567890'') \<and>
   occurrences (lit ''tel:'') (lit ''tel:1234567890'') = 1 \<and>
   validateInput (Some Url) (emptyFormData\<lparr>url := Some (lit ''example.com'')\<rparr>) \<and>
   \<not> prefix (lit ''http://'') (lit ''example.com'') \<and>
   \<not> prefix (lit ''https://'') (lit ''example.com'') \<and>
   generateQRContent (Some Url) (emptyFormData\<lparr>url := Some (lit ''example.com'')\<rparr>) =
     Inr (lit ''https://example.com'') \<and>
   occurrences (lit ''https://'') (lit ''https://example.com'') = 1 \<and>
   validateInput (Some Url) (emptyFormData\<lparr>url := Some (lit ''https://example.com'')\<rparr>) \<and>
   prefix (lit ''https://'') (lit ''https://example.com'') \<and>
   generateQRContent (Some Url) (emptyFormData\<lparr>url := Some (lit ''https://example.com'')\<rparr>) =
     Inr (lit ''https://example.com'')"
  using prefix_occurrences[of "emptyFormData\<lparr>ssid := Some (lit ''Home'')\<rparr>"
      "lit ''WIFI:T:WPA;S:Home;P:;H:false;;''"]
    prefix_occurrences[of "emptyFormData\<lparr>email := Some (lit ''a@b.com'')\<rparr>"
      "lit ''mailto:a@b.com''"]
    prefix_occurrences[of "emptyFormData\<lparr>phone := Some (lit ''123 456 7890'')\<rparr>"
      "lit ''tel:1234567890''"]
    prefix_occurrences[of "emptyFormData\<lparr>url := Some (lit ''example.com'')\<rparr>"
      "lit ''https://example.com''"]
    prefix_occurrences[of "emptyFormData\<lparr>url := Some (lit ''https://example.com'')\<rparr>"
      "lit ''https://example.com''"]
  by (simp add: eval_defs)

text \<open>
  C6 as the specification states it, the literal exactly once, fails: the ssid \<open>WIFI:\<close>
  is accepted and its content holds \<open>WIFI:\<close> twice; the url \<open>https://a.b/?u=https://c\<close>
  is accepted, returned as it is, and holds \<open>https://\<close> twice.
\<close>

theorem prefix_twice_counterexample:
  "validateInput (Some Wifi) (emptyFormData\<lparr>ssid := Some (lit ''WIFI:'')\<rparr>) \<and>
   generateQRContent (Some Wifi) (emptyFormData\<lparr>ssid := Some (lit ''WIFI:'')\<rparr>) =
     Inr (lit ''WIFI:T:WPA;S:WIFI:;P:;H:false;;'') \<and>
   occurrences (lit ''WIFI:'') (lit ''WIFI:T:WPA;S:WIFI:;P:;H:false;;'') = 2 \<and>
   validateInput (Some Url) (emptyFormData\<lparr>url := Some (lit ''https://a.b/?u=https://c'')\<rparr>) \<and>
   generateQRContent (Some Url) (emptyFormData\<lparr>url := Some (lit ''https://a.b/?u=https://c'')\<rparr>) =
     Inr (lit ''https://a.b/?u=https://c'') \<and>
   occurrences (lit ''https://'') (lit ''https://a.b/?u=https://c'') = 2"
  by (simp add: eval_defs)

text \<open>
  C10, as the code has it. When the validator accepts, the encoder returns a content that
  is not empty, or, for Email only and only when the subject or the body holds an
  unpaired surrogate, raises \<open>URIError\<close>. Either way no submission hands the renderer an
  empty content.
\<close>

theorem validated_content_nonempty:
  "(validateInput t d \<longrightarrow>
      (case generateQRContent t d of
         Inr c \<Rightarrow> c \<noteq> []
       | Inl e \<Rightarrow> e = URIError \<and> t = Some Email \<and>
           \<not> (isWellFormed (orEmpty (emailSubject d)) \<and> isWellFormed (orEmpty (emailBody d))))) \<and>
   (CallToDataURL c \<in> set (snd (handleSubmit r s)) \<longrightarrow> c \<noteq> [])"
proof (intro conjI impI)
  assume "validateInput t d"
  then show "case generateQRContent t d of
         Inr c \<Rightarrow> c \<noteq> []
       | Inl e \<Rightarrow> e = URIError \<and> t = Some Email \<and>
           \<not> (isWellFormed (orEmpty (emailSubject d)) \<and> isWellFormed (orEmpty (emailBody d)))"
    by (rule validated_content)
next
  assume call: "CallToDataURL c \<in> set (snd (handleSubmit r s))"
  show "c \<noteq> []"
  proof (cases "qrType s")
    case None
    with call show ?thesis by (simp add: handleSubmit_def)
  next
    case (Some q)
    with call have v: "validateInput (Some q) (formData s)"
      and g: "generateQRContent (Some q) (formData s) = Inr c"
      by (auto simp: handleSubmit_def split: if_splits sum.splits)
    from validated_content[OF v] g show ?thesis by simp
  qed
qed

theorem validated_content_nonempty_witness:
  "validateInput (qrType staleState) (formData staleState) \<and>
   generateQRContent (qrType staleState) (formData staleState) =
     Inr (lit ''https://example.com'') \<and>
   lit ''https://example.com'' \<noteq> [] \<and>
   CallToDataURL (lit ''https://example.com'') \<in>
     set (snd (handleSubmit constantRenderer staleState))"
  using validated_content_nonempty[of "qrType staleState" "formData staleState"
      "lit ''https://example.com''" constantRenderer staleState]
  by (simp add: handleSubmit_def renderOptions_def eval_defs)

text \<open>
  C10 as the specification states it fails: the form with the address \<open>a@b.com\<close> and an
  unpaired surrogate as subject is accepted, and the encoder returns no string for it.
\<close>

theorem validated_email_raises:
  "validateInput (Some Email) loneSurrogateEmail \<and>
   generateQRContent (Some Email) loneSurrogateEmail = Inl URIError"
  by (simp add: eval_defs)

section \<open>The event handlers\<close>

text \<open>
  C8. Changing the selected type sets the new type and clears the field values, the
  rendered output and the error: the state after the change does not depend on the
  state before it, nothing is displayed, and the validator sees only empty fields.
\<close>

theorem selectOnChange_clears:
  "selectOnChange v s = \<lparr>qrType = v, formData = emptyFormData, qrUrl = [], error = []\<rparr> \<and>
   selectOnChange v s = selectOnChange v s' \<and>
   displayedOutput (selectOnChange v s) = None \<and>
   displayedError (selectOnChange v s) = None \<and>
   \<not> validateInput t (formData (selectOnChange v s))"
  using validateInput_emptyFormData[of t]
  by (simp add: selectOnChange_def displayedOutput_def displayedError_def)

text \<open>
  C9, as the code has it. When a type is selected and the validator rejects the fields,
  the submission sets the message \<open>Please fill in all required fields correctly\<close> (no
  full stop) and changes nothing else; only the validator has been called, neither the
  encoder nor the renderer. When no type is selected the submission returns at once:
  no message, no call, the state as it was.
\<close>

theorem handleSubmit_rejected:
  "(qrType s = Some t \<and> \<not> validateInput (Some t) (formData s) \<longrightarrow>
      handleSubmit r s =
        (s\<lparr>error := lit ''Please fill in all required fields correctly''\<rparr>,
         [CallValidateInput])) \<and>
   (qrType s = None \<longrightarrow> handleSubmit r s = (s, []))"
  by (simp add: handleSubmit_def)

theorem handleSubmit_rejected_witness:
  "qrType shortPhoneState = Some Phone \<and>
   \<not> validateInput (Some Phone) (formData shortPhoneState) \<and>
   handleSubmit constantRenderer shortPhoneState =
     (shortPhoneState\<lparr>error := lit ''Please fill in all required fields correctly''\<rparr>,
      [CallValidateInput]) \<and>
   displayedOutput (fst (handleSubmit constantRenderer shortPhoneState)) =
     displayedOutput shortPhoneState \<and>
   qrType initialState = None \<and>
   handleSubmit constantRenderer initialState = (initialState, [])"
  using handleSubmit_rejected[of shortPhoneState Phone constantRenderer]
    handleSubmit_rejected[of initialState Phone constantRenderer]
  by (simp add: eval_defs)

text \<open>
  C9 as the specification states it fails: in the initial state no type is selected, the
  validator rejects, and the submission shows no message; and for the type Url with no
  url the message set is not the sentence with a full stop at its end.
\<close>

theorem rejected_message_counterexample:
  "\<not> validateInput (qrType initialState) (formData initialState) \<and>
   displayedError (fst (handleSubmit constantRenderer initialState)) = None \<and>
   \<not> validateInput (Some Url) emptyFormData \<and>
   error (fst (handleSubmit constantRenderer (initialState\<lparr>qrType := Some Url\<rparr>))) \<noteq>
     lit ''Please fill in all required fields correctly.''"
  by (simp add: handleSubmit_def eval_defs)

text \<open>
  C7, as the code has it. A submission does not clear the rendered output. When the
  fields are accepted, the content is produced and the renderer resolves, the output
  becomes the new data URL and the error is cleared. When the renderer rejects (or the
  encoder raises), the message \<open>Failed to generate QR code\<close> is set and the output stays
  what it was. The output changes only when the renderer has resolved.
\<close>

theorem handleSubmit_output:
  "(validateInput (qrType s) (formData s) \<and>
    generateQRContent (qrType s) (formData s) = Inr c \<and> r c renderOptions = Inr u \<longrightarrow>
      fst (handleSubmit r s) = s\<lparr>qrUrl := u, error := []\<rparr>) \<and>
   (validateInput (qrType s) (formData s) \<and>
    generateQRContent (qrType s) (formData s) = Inr c \<and> r c renderOptions = Inl e \<longrightarrow>
      fst (handleSubmit r s) = s\<lparr>error := lit ''Failed to generate QR code''\<rparr>) \<and>
   (validateInput (qrType s) (formData s) \<and>
    generateQRContent (qrType s) (formData s) = Inl e \<longrightarrow>
      fst (handleSubmit r s) = s\<lparr>error := lit ''Failed to generate QR code''\<rparr>) \<and>
   (qrUrl (fst (handleSubmit r s)) \<noteq> qrUrl s \<longrightarrow>
      validateInput (qrType s) (formData s) \<and>
      (\<exists>c'. generateQRContent (qrType s) (formData s) = Inr c' \<and>
            r c' renderOptions = Inr (qrUrl (fst (handleSubmit r s)))))"
proof (cases "qrType s")
  case None
  then show ?thesis by (simp add: handleSubmit_def)
next
  case (Some t)
  then show ?thesis
    by (auto simp: handleSubmit_def split: sum.splits)
qed

theorem handleSubmit_output_witness:
  "validateInput (qrType staleState) (formData staleState) \<and>
   generateQRContent (qrType staleState) (formData staleState) =
     Inr (lit ''https://example.com'') \<and>
   constantRenderer (lit ''https://example.com'') renderOptions =
     Inr (lit ''data:image/png;base64,NEW'') \<and>
   fst (handleSubmit constantRenderer staleState) =
     staleState\<lparr>qrUrl := lit ''data:image/png;base64,NEW'', error := []\<rparr> \<and>
   qrUrl (fst (handleSubmit constantRenderer staleState)) \<noteq> qrUrl staleState \<and>
   failingRenderer (lit ''https://example.com'') renderOptions = Inl RenderError \<and>
   fst (handleSubmit failingRenderer staleState) =
     staleState\<lparr>error := lit ''Failed to generate QR code''\<rparr> \<and>
   validateInput (qrType loneSurrogateState) (formData loneSurrogateState) \<and>
   generateQRContent (qrType loneSurrogateState) (formData loneSurrogateState) =
     Inl URIError \<and>
   fst (handleSubmit constantRenderer loneSurrogateState) =
     loneSurrogateState\<lparr>error := lit ''Failed to generate QR code''\<rparr>"
  using handleSubmit_output[of staleState "lit ''https://example.com''" constantRenderer
      "lit ''data:image/png;base64,NEW''" RenderError]
    handleSubmit_output[of staleState "lit ''https://example.com''" failingRenderer
      "lit ''data:image/png;base64,NEW''" RenderError]
    handleSubmit_output[of loneSurrogateState "lit ''https://example.com''" constantRenderer
      "lit ''data:image/png;base64,NEW''" URIError]
  by (simp add: handleSubmit_def eval_defs)

text \<open>
  C7 as the specification states it fails: the state shows a rendered code, the renderer
  rejects the next submission, and afterwards the old code is still displayed, together
  with the message.
\<close>

theorem stale_output_counterexample:
  "displayedOutput staleState = Some (lit ''data:image/png;base64,OLD'') \<and>
   displayedOutput (fst (handleSubmit failingRenderer staleState)) =
     Some (lit ''data:image/png;base64,OLD'') \<and>
   displayedError (fst (handleSubmit failingRenderer staleState)) =
     Some (lit ''Failed to generate QR code'')"
  by (simp add: handleSubmit_def eval_defs)

end
